theory Spec2Isabelle
  imports Main
begin

section \<open>JavaScript strings\<close>

text \<open>
  A JavaScript string is a sequence of UTF-16 code units; \<open>length\<close>, \<open>trim\<close>, \<open>split\<close>
  and the regular expressions of the source (none has the \<open>u\<close> flag) all work on code
  units. A code unit is modelled by its number, so the en dash of the source is 8211 and
  the em dash 8212.
\<close>

type_synonym jschar = nat
type_synonym jsstring = "jschar list"

text \<open>String literals of the source, all ASCII, are written through \<open>js\<close>.\<close>

abbreviation js :: "string \<Rightarrow> jsstring" where
  "js s \<equiv> map of_char s"

text \<open>
  WhiteSpace and LineTerminator of ECMAScript: what \<open>String.prototype.trim\<close> strips and
  what \<open>\s\<close> matches.
\<close>

definition isSpace :: "jschar \<Rightarrow> bool" where
  "isSpace c = (c = 9 \<or> c = 10 \<or> c = 11 \<or> c = 12 \<or> c = 13 \<or> c = 32 \<or> c = 160
     \<or> c = 5760 \<or> (8192 \<le> c \<and> c \<le> 8202) \<or> c = 8232 \<or> c = 8233 \<or> c = 8239
     \<or> c = 8287 \<or> c = 12288 \<or> c = 65279)"

definition trim :: "jsstring \<Rightarrow> jsstring" where
  "trim s = rev (dropWhile isSpace (rev (dropWhile isSpace s)))"

definition startsWith :: "jsstring \<Rightarrow> jsstring \<Rightarrow> bool" where
  "startsWith p s = (take (length p) s = p)"

fun includesStr :: "jsstring \<Rightarrow> jsstring \<Rightarrow> bool" where
  "includesStr p [] = (p = [])"
| "includesStr p (x # xs) = (startsWith p (x # xs) \<or> includesStr p xs)"

text \<open>\<open>Array.prototype.join\<close>.\<close>

fun join :: "jsstring \<Rightarrow> jsstring list \<Rightarrow> jsstring" where
  "join sep [] = []"
| "join sep [x] = x"
| "join sep (x # y # ys) = x @ sep @ join sep (y # ys)"

text \<open>Decimal rendering of a number in a template string.\<close>

fun dec :: "nat \<Rightarrow> jsstring" where
  "dec n = (if n < 10 then [48 + n] else dec (n div 10) @ [48 + n mod 10])"

declare dec.simps [simp del]

section \<open>Regular expressions\<close>

text \<open>
  Every regular expression of the source is a sequence of single-character atoms, each
  with a quantifier, between optional anchors and around capture groups. \<open>Rep c lo hi g\<close>
  is the atom \<open>c\<close> repeated at least \<open>lo\<close> and at most \<open>hi\<close> times (\<open>None\<close>: unbounded),
  greedily or lazily; \<open>Mark\<close> records the current position (the capture groups are read
  off between marks); \<open>Bos\<close> and \<open>Eos\<close> are \<open>^\<close> and \<open>$\<close> without the \<open>m\<close> flag.

  \<open>rx\<close> is the backtracking matcher of ECMAScript on this fragment: a greedy quantifier
  first tries one more repetition and then the rest of the pattern, a lazy one the other
  way round. It returns the recorded marks and the end position of the match.
\<close>

datatype greed = Greedy | Lazy

datatype item = Rep "jschar \<Rightarrow> bool" nat "nat option" greed | Mark | Bos | Eos

type_synonym regex = "item list"

definition below :: "nat \<Rightarrow> nat option \<Rightarrow> bool" where
  "below k hi = (case hi of None \<Rightarrow> True | Some m \<Rightarrow> k < m)"

fun rx :: "regex \<Rightarrow> nat \<Rightarrow> nat \<Rightarrow> jsstring \<Rightarrow> nat list \<Rightarrow> (nat list \<times> nat) option" where
  "rx [] k pos s ms = Some (rev ms, pos)"
| "rx (Mark # r) k pos s ms = rx r 0 pos s (pos # ms)"
| "rx (Bos # r) k pos s ms = (if pos = 0 then rx r 0 pos s ms else None)"
| "rx (Eos # r) k pos s ms = (if s = [] then rx r 0 pos s ms else None)"
| "rx (Rep c lo hi g # r) k pos [] ms = (if lo \<le> k then rx r 0 pos [] ms else None)"
| "rx (Rep c lo hi g # r) k pos (x # xs) ms =
     (case g of
        Greedy \<Rightarrow>
          (case (if c x \<and> below k hi then rx (Rep c lo hi g # r) (Suc k) (Suc pos) xs ms
                 else None) of
             Some res \<Rightarrow> Some res
           | None \<Rightarrow> if lo \<le> k then rx r 0 pos (x # xs) ms else None)
      | Lazy \<Rightarrow>
          (case (if lo \<le> k then rx r 0 pos (x # xs) ms else None) of
             Some res \<Rightarrow> Some res
           | None \<Rightarrow> if c x \<and> below k hi then rx (Rep c lo hi g # r) (Suc k) (Suc pos) xs ms
                     else None))"

text \<open>
  A regular expression without the \<open>y\<close> flag is tried at every position from the left;
  the result is the start of the first match, its marks and its end.
\<close>

fun search :: "regex \<Rightarrow> nat \<Rightarrow> jsstring \<Rightarrow> (nat \<times> nat list \<times> nat) option" where
  "search r pos [] = map_option (Pair pos) (rx r 0 pos [] [])"
| "search r pos (x # xs) =
     (case rx r 0 pos (x # xs) [] of
        Some res \<Rightarrow> Some (pos, res)
      | None \<Rightarrow> search r (Suc pos) xs)"

text \<open>\<open>RegExp.prototype.test\<close> and the substring between two positions.\<close>

definition test :: "regex \<Rightarrow> jsstring \<Rightarrow> bool" where
  "test r s = (search r 0 s \<noteq> None)"

definition substring :: "jsstring \<Rightarrow> nat \<Rightarrow> nat \<Rightarrow> jsstring" where
  "substring s a b = take (b - a) (drop a s)"

text \<open>\<open>String.prototype.match\<close> without the \<open>g\<close> flag, element 0: the first match.\<close>

definition match0 :: "regex \<Rightarrow> jsstring \<Rightarrow> jsstring option" where
  "match0 r s = (case search r 0 s of None \<Rightarrow> None | Some (a, ms, b) \<Rightarrow> Some (substring s a b))"

text \<open>
  \<open>String.prototype.split\<close> with a regular expression: the separator is tried at each
  position in turn, \<open>acc\<close> being the piece read since the last split, in reverse. A match
  that ends where the piece starts (an empty match after an empty piece) does not split.
  The empty string splits to one empty piece unless the separator matches it.
\<close>

function splitFrom :: "regex \<Rightarrow> jsstring \<Rightarrow> jsstring \<Rightarrow> jsstring list" where
  "splitFrom r acc [] = [rev acc]"
| "splitFrom r acc (x # xs) =
     (case rx r 0 0 (x # xs) [] of
        None \<Rightarrow> splitFrom r (x # acc) xs
      | Some (ms, e) \<Rightarrow>
          if e = 0 \<and> acc = [] then splitFrom r (x # acc) xs
          else rev acc # splitFrom r [] (drop e (x # xs)))"
  by pat_completeness auto
termination
  by (relation "measure (\<lambda>(r, acc, s). 2 * length s + (if acc = [] then 0 else 1))") auto

definition splitRx :: "regex \<Rightarrow> jsstring \<Rightarrow> jsstring list" where
  "splitRx r s = (if s = [] then (case rx r 0 0 [] [] of None \<Rightarrow> [[]] | Some res \<Rightarrow> [])
                else splitFrom r [] s)"

section \<open>Character classes and patterns of the parser\<close>

definition isChar :: "char \<Rightarrow> jschar \<Rightarrow> bool" where
  "isChar p c = (c = of_char p)"

definition inRange :: "char \<Rightarrow> char \<Rightarrow> jschar \<Rightarrow> bool" where
  "inRange a b c = (of_char a \<le> c \<and> c \<le> of_char b)"

text \<open>
  With the \<open>i\<close> flag (and no \<open>u\<close> flag) two code units match when their canonical forms
  are equal. Every pattern character of the source is ASCII, and a code unit outside
  ASCII never canonicalizes into ASCII, so the canonical form is needed on ASCII only:
  the upper-case letter.
\<close>

definition canon :: "jschar \<Rightarrow> jschar" where
  "canon c = (if 97 \<le> c \<and> c \<le> 122 then c - 32 else c)"

definition ci :: "char \<Rightarrow> jschar \<Rightarrow> bool" where
  "ci p c = (canon c = canon (of_char p))"

definition one :: "(jschar \<Rightarrow> bool) \<Rightarrow> item" where
  "one c = Rep c 1 (Some 1) Greedy"

definition lit :: "string \<Rightarrow> regex" where
  "lit w = map (\<lambda>p. one (ci p)) w"

text \<open>\<open>.\<close> without the \<open>s\<close> flag: anything but a line terminator.\<close>

definition dot :: "jschar \<Rightarrow> bool" where
  "dot c = (c \<noteq> 10 \<and> c \<noteq> 13 \<and> c \<noteq> 8232 \<and> c \<noteq> 8233)"

definition digit :: "jschar \<Rightarrow> bool" where
  "digit c = inRange CHR ''0'' CHR ''9'' c"

definition letter :: "jschar \<Rightarrow> bool" where
  "letter c = (inRange CHR ''a'' CHR ''z'' c \<or> inRange CHR ''A'' CHR ''Z'' c)"

text \<open>\<open>/[a-zA-Z0-9._%+-]+@[a-zA-Z0-9.-]+\.[a-zA-Z]{2,}/\<close>\<close>

definition emailLocal :: "jschar \<Rightarrow> bool" where
  "emailLocal c = (letter c \<or> digit c \<or> isChar CHR ''.'' c \<or> isChar CHR ''_'' c \<or> isChar CHR ''%'' c
     \<or> isChar CHR ''+'' c \<or> isChar CHR ''-'' c)"

definition emailDomain :: "jschar \<Rightarrow> bool" where
  "emailDomain c = (letter c \<or> digit c \<or> isChar CHR ''.'' c \<or> isChar CHR ''-'' c)"

definition rxEmail :: regex where
  "rxEmail = [Rep emailLocal 1 None Greedy, one (isChar CHR ''@''), Rep emailDomain 1 None Greedy,
              one (isChar CHR ''.''), Rep letter 2 None Greedy]"

text \<open>\<open>/\+?[0-9]{7,15}/g\<close>\<close>

definition rxPhone :: regex where
  "rxPhone = [Rep (isChar CHR ''+'') 0 (Some 1) Greedy, Rep digit 7 (Some 15) Greedy]"

text \<open>\<open>/\r?\n/\<close>\<close>

definition rxNewline :: regex where
  "rxNewline = [Rep (\<lambda>c. c = 13) 0 (Some 1) Greedy, one (\<lambda>c. c = 10)]"

text \<open>\<open>/^[A-Za-z ,.'-]{2,80}$/\<close>\<close>

definition nameChar :: "jschar \<Rightarrow> bool" where
  "nameChar c = (inRange CHR ''A'' CHR ''Z'' c \<or> inRange CHR ''a'' CHR ''z'' c \<or> isChar CHR '' '' c
     \<or> isChar CHR '','' c \<or> isChar CHR ''.'' c \<or> c = 39 \<or> isChar CHR ''-'' c)"

definition rxName :: regex where
  "rxName = [Bos, Rep nameChar 2 (Some 80) Greedy, Eos]"

text \<open>\<open>/\s+/\<close>\<close>

definition rxSpaces :: regex where
  "rxSpaces = [Rep isSpace 1 None Greedy]"

text \<open>\<open>/^skills?/i\<close>\<close>

definition rxSkills :: regex where
  "rxSkills = Bos # lit ''skill'' @ [Rep (ci CHR ''s'') 0 (Some 1) Greedy]"

text \<open>
  \<open>/[:\-E]|\n/\<close> where \<open>E\<close> stands for the en dash U+2013: an alternation of two
  single-character atoms, which is the class of both.
\<close>

definition skillSep :: "jschar \<Rightarrow> bool" where
  "skillSep c = (isChar CHR '':'' c \<or> isChar CHR ''-'' c \<or> c = 8211 \<or> c = 10)"

definition rxSkillSep :: regex where
  "rxSkillSep = [one skillSep]"

text \<open>\<open>/[;,|BD]/\<close> where \<open>B\<close> and \<open>D\<close> stand for the bullet U+2022 and the middle dot U+00B7.\<close>

definition listSep :: "jschar \<Rightarrow> bool" where
  "listSep c = (isChar CHR '';'' c \<or> isChar CHR '','' c \<or> isChar CHR ''|'' c \<or> c = 8226 \<or> c = 183)"

definition rxListSep :: regex where
  "rxListSep = [one listSep]"

text \<open>\<open>/^experience/i\<close>, \<open>/^work experience/i\<close>, \<open>/^education/i\<close>\<close>

definition rxExperience :: regex where
  "rxExperience = Bos # lit ''experience''"

definition rxWorkExperience :: regex where
  "rxWorkExperience = Bos # lit ''work experience''"

definition rxEducation :: regex where
  "rxEducation = Bos # lit ''education''"

text \<open>
  \<open>/degree|university|bachelor|master/i.test(line)\<close>: an alternation at the top of a
  pattern that is only tested matches when one of its alternatives does.
\<close>

definition testEducationWords :: "jsstring \<Rightarrow> bool" where
  "testEducationWords line = (test (lit ''degree'') line \<or> test (lit ''university'') line
     \<or> test (lit ''bachelor'') line \<or> test (lit ''master'') line)"

text \<open>
  \<open>/^(.*?)\s+[\-EM@]\s+(.*?)\s*\(?([0-9]{4}.*?)[\)]?$/\<close> where \<open>E\<close> and \<open>M\<close> stand for the
  en dash U+2013 and the em dash U+2014. The six marks are the bounds of the three groups.
\<close>

definition dashAt :: "jschar \<Rightarrow> bool" where
  "dashAt c = (isChar CHR ''-'' c \<or> c = 8211 \<or> c = 8212 \<or> isChar CHR ''@'' c)"

definition rxEntry :: regex where
  "rxEntry = [Bos, Mark, Rep dot 0 None Lazy, Mark, Rep isSpace 1 None Greedy, one dashAt,
              Rep isSpace 1 None Greedy, Mark, Rep dot 0 None Lazy, Mark,
              Rep isSpace 0 None Greedy, Rep (isChar CHR ''('') 0 (Some 1) Greedy,
              Mark, Rep digit 4 (Some 4) Greedy, Rep dot 0 None Lazy, Mark,
              Rep (isChar CHR '')'') 0 (Some 1) Greedy, Eos]"

text \<open>The groups 1, 2 and 3 of a match of \<open>rxEntry\<close>, or \<open>None\<close> for \<open>null\<close>.\<close>

definition matchEntry :: "jsstring \<Rightarrow> (jsstring \<times> jsstring \<times> jsstring) option" where
  "matchEntry line =
     (case search rxEntry 0 line of
        Some (a, [a1, b1, a2, b2, a3, b3], b) \<Rightarrow>
          Some (substring line a1 b1, substring line a2 b2, substring line a3 b3)
      | _ \<Rightarrow> None)"

section \<open>The heuristic parser\<close>

record ExperienceEntry =
  title :: "jsstring option"
  company :: "jsstring option"
  dateRange :: "jsstring option"
  description :: "jsstring option"

text \<open>The third field is \<open>dateRange\<close> in the source; a field name is used once here.\<close>

record EducationEntry =
  degree :: "jsstring option"
  institution :: "jsstring option"
  eduDateRange :: "jsstring option"

record ParsedResume =
  name :: "jsstring option"
  email :: "jsstring option"
  phone :: "jsstring option"
  skills :: "jsstring list"
  experience :: "ExperienceEntry list"
  education :: "EducationEntry list"
  raw :: jsstring

text \<open>\<open>raw.split(/\r?\n/).map((l) => l.trim()).filter(Boolean)\<close>\<close>

definition linesOf :: "jsstring \<Rightarrow> jsstring list" where
  "linesOf text = filter (\<lambda>l. l \<noteq> []) (map trim (splitRx rxNewline text))"

definition parseName :: "jsstring list \<Rightarrow> jsstring option" where
  "parseName ls =
     (case ls of
        [] \<Rightarrow> None
      | candidate # rest \<Rightarrow>
          if test rxName candidate \<and> length (splitRx rxSpaces candidate) \<le> 5
          then Some candidate else None)"

text \<open>
  \<open>String.prototype.toLowerCase\<close> follows the Unicode case tables of the JavaScript
  runtime, which are no part of the repository: it is the parameter \<open>lower\<close>.
\<close>

definition isSkillLine :: "(jsstring \<Rightarrow> jsstring) \<Rightarrow> jsstring \<Rightarrow> bool" where
  "isSkillLine lower line = (test rxSkills line \<or> includesStr (js ''skill'') (lower line))"

text \<open>
  \<open>line.split(/[:\-E]|\n/).slice(1).join(" ").split(/[;,|BD]/).map((s) => s.trim()).filter(Boolean)\<close>
\<close>

definition skillParts :: "jsstring \<Rightarrow> jsstring list" where
  "skillParts line =
     filter (\<lambda>s. s \<noteq> [])
       (map trim (splitRx rxListSep (join (js '' '') (drop 1 (splitRx rxSkillSep line)))))"

text \<open>The loop over \<open>lines.slice(0, 30)\<close> that ends at the first skills line.\<close>

fun skillsLoop :: "(jsstring \<Rightarrow> jsstring) \<Rightarrow> jsstring list \<Rightarrow> jsstring list" where
  "skillsLoop lower [] = []"
| "skillsLoop lower (line # rest) =
     (if isSkillLine lower line then skillParts line else skillsLoop lower rest)"

datatype sectionName = SecExperience | SecEducation

text \<open>
  One iteration of the loop over the lines: the state is \<open>currentSection\<close> (\<open>None\<close> for
  \<open>null\<close>) and the two lists built so far.
\<close>

type_synonym sectionState = "sectionName option \<times> ExperienceEntry list \<times> EducationEntry list"

definition sectionStep :: "sectionState \<Rightarrow> jsstring \<Rightarrow> sectionState" where
  "sectionStep st line =
     (case st of (currentSection, exps, edus) \<Rightarrow>
        if test rxExperience line \<or> test rxWorkExperience line
        then (Some SecExperience, exps, edus)
        else if test rxEducation line \<or> testEducationWords line
        then (Some SecEducation, exps, edus)
        else
          (currentSection,
           (if currentSection = Some SecExperience
            then (case matchEntry line of
                    None \<Rightarrow> exps
                  | Some (m1, m2, m3) \<Rightarrow>
                      exps @ [\<lparr>title = Some (trim m1), company = Some (trim m2),
                               dateRange = Some (trim m3), description = None\<rparr>])
            else exps),
           (if currentSection = Some SecEducation
            then (case matchEntry line of
                    None \<Rightarrow> edus
                  | Some (m1, m2, m3) \<Rightarrow>
                      edus @ [\<lparr>degree = Some (trim m1), institution = Some (trim m2),
                               eduDateRange = Some (trim m3)\<rparr>])
            else edus)))"

definition sectionsLoop :: "jsstring list \<Rightarrow> sectionState" where
  "sectionsLoop ls = foldl sectionStep (None, [], []) ls"

text \<open>
  \<open>parse\<close>. The argument has type \<open>string\<close>, so \<open>raw = text ?? ""\<close> is \<open>text\<close>. The phone pattern
  has the \<open>g\<close> flag: \<open>match\<close> returns all matches and element 0 is the first one.
\<close>

definition parse :: "(jsstring \<Rightarrow> jsstring) \<Rightarrow> jsstring \<Rightarrow> ParsedResume" where
  "parse lower text =
     (let lines = linesOf text;
          st = sectionsLoop lines
      in \<lparr>name = parseName lines,
          email = match0 rxEmail text,
          phone = match0 rxPhone text,
          skills = skillsLoop lower (take 30 lines),
          experience = fst (snd st),
          education = snd (snd st),
          raw = text\<rparr>)"

text \<open>
  The skills rule in the words of the specification, to compare \<open>skillParts\<close> with:
  everything after the first \<open>:\<close>, \<open>-\<close>, en dash or em dash of the line, split on
  \<open>;\<close>, \<open>,\<close>, \<open>|\<close>, bullet or middle dot, each token trimmed, the empty ones dropped.
\<close>

definition specSkillSep :: "jschar \<Rightarrow> bool" where
  "specSkillSep c = (isChar CHR '':'' c \<or> isChar CHR ''-'' c \<or> c = 8211 \<or> c = 8212)"

definition specSkillParts :: "jsstring \<Rightarrow> jsstring list" where
  "specSkillParts line =
     filter (\<lambda>s. s \<noteq> [])
       (map trim (splitRx rxListSep (drop 1 (dropWhile (\<lambda>c. \<not> specSkillSep c) line))))"

text \<open>\<open>toLowerCase\<close> on a string of ASCII code units, for evaluating \<open>parse\<close>.\<close>

definition asciiLower :: "jsstring \<Rightarrow> jsstring" where
  "asciiLower s = map (\<lambda>c. if 65 \<le> c \<and> c \<le> 90 then c + 32 else c) s"

section \<open>Collaborators of the import services\<close>

text \<open>The bytes of an uploaded file or of a page image.\<close>

datatype buffer = Buffer "nat list"

text \<open>
  What is thrown: the two exceptions of the framework that the source constructs, and
  \<open>Error\<close> for anything thrown by a library or the database.
\<close>

datatype exn = BadRequestException jsstring | InternalServerErrorException exn | Error jsstring

record File =
  mimetype :: jsstring
  originalname :: jsstring
  buffer :: buffer

text \<open>
  The argument of \<open>prisma.resume.create\<close>. Its \<open>data\<close> is the constant \<open>defaultResumeData\<close>
  of the schema package, which is no part of the repository, with \<open>basics.headline\<close>
  replaced: the headline is the only part that depends on the file. \<open>resumeTitle\<close> is
  \<open>title\<close> in the source.
\<close>

record ResumeCreateInput =
  userId :: jsstring
  visibility :: jsstring
  headline :: jsstring
  resumeTitle :: jsstring
  slug :: jsstring

datatype Resume = Resume (rowId: jsstring) (rowInput: ResumeCreateInput)

text \<open>Every call that leaves the two services, in the order it is made.\<close>

datatype call =
    Require jsstring
  | PdfParse buffer
  | Pdf2picBulk buffer
  | TesseractRecognize buffer
  | MammothExtractRawText buffer
  | ResumeFindFirst jsstring jsstring
  | ResumeCreate ResumeCreateInput

text \<open>What \<open>require\<close> of a module returned: a function, an object with a \<open>default\<close> function, or neither.\<close>

datatype 'f module = ExportsFunction 'f | ExportsDefault 'f | ExportsOther

text \<open>
  The libraries and the database are parameters. \<open>Inl\<close> is a thrown exception. The result
  of \<open>pdf-parse\<close> is \<open>result?.text\<close>, of \<open>mammoth.extractRawText\<close> \<open>result?.value\<close>, of
  \<open>Tesseract.recognize\<close> \<open>data?.text\<close> (\<open>None\<close> for \<open>undefined\<close>). \<open>requirePdf2pic\<close> gives
  \<open>fromBuffer(buffer, ...).bulk(-1, true)\<close>: \<open>None\<close> for a falsy \<open>results\<close>, and per page
  \<open>None\<close> when \<open>result && result.base64\<close> is falsy, else the bytes the base64 text decodes to.
  \<open>findFirst\<close> is whether \<open>prisma.resume.findFirst\<close> found a row with the user and slug.
\<close>

record world =
  toLowerCase :: "jsstring \<Rightarrow> jsstring"
  requirePdfParse :: "exn + (buffer \<Rightarrow> exn + jsstring option) module"
  requirePdfParseLib :: "exn + (buffer \<Rightarrow> exn + jsstring option) module"
  requireMammoth :: "exn + (buffer \<Rightarrow> exn + jsstring option)"
  requireTesseract :: "exn + (buffer \<Rightarrow> exn + jsstring option)"
  requirePdf2pic :: "exn + (buffer \<Rightarrow> exn + buffer option list option)"
  slugify :: "jsstring \<Rightarrow> jsstring"
  findFirst :: "jsstring \<Rightarrow> jsstring \<Rightarrow> exn + bool"
  create :: "ResumeCreateInput \<Rightarrow> exn + Resume"

section \<open>OcrService\<close>

text \<open>
  \<open>recognizeImageBuffer\<close>: a missing library and a failed recognition both give the empty
  string. The result keeps the type of a call that could throw, so that the handlers of
  its callers are branches of the model.
\<close>

definition recognizeImageBuffer :: "world \<Rightarrow> buffer \<Rightarrow> call list \<times> (exn + jsstring)" where
  "recognizeImageBuffer w b =
     (case requireTesseract w of
        Inl e \<Rightarrow> ([Require (js ''tesseract.js'')], Inr [])
      | Inr recognize \<Rightarrow>
          ([Require (js ''tesseract.js''), TesseractRecognize b],
           (case recognize b of
              Inl error \<Rightarrow> Inr []
            | Inr None \<Rightarrow> Inr []
            | Inr (Some t) \<Rightarrow> Inr t)))"

section \<open>ResumeService\<close>

text \<open>The body of the loop over the pages in \<open>ocrPdfBuffer\<close>, on the calls made and \<open>extractedText\<close>.\<close>

definition ocrPage :: "world \<Rightarrow> call list \<times> jsstring \<Rightarrow> buffer option \<Rightarrow> call list \<times> jsstring" where
  "ocrPage w st result =
     (case st of (calls, extractedText) \<Rightarrow>
        (case result of
           None \<Rightarrow> (calls, extractedText)
         | Some imageBuffer \<Rightarrow>
             (case recognizeImageBuffer w imageBuffer of
                (cs, Inl ocrError) \<Rightarrow> (calls @ cs, extractedText)
              | (cs, Inr pageText) \<Rightarrow>
                  (calls @ cs,
                   if pageText \<noteq> [] then extractedText @ pageText @ [10] else extractedText))))"

text \<open>\<open>ocrPdfBuffer\<close>: whatever is thrown inside is caught and the empty string returned.\<close>

definition ocrPdfBuffer :: "world \<Rightarrow> buffer \<Rightarrow> call list \<times> (exn + jsstring)" where
  "ocrPdfBuffer w b =
     (case requirePdf2pic w of
        Inl error \<Rightarrow> ([Require (js ''pdf2pic'')], Inr [])
      | Inr bulk \<Rightarrow>
          (case bulk b of
             Inl error \<Rightarrow> ([Require (js ''pdf2pic''), Pdf2picBulk b], Inr [])
           | Inr None \<Rightarrow> ([Require (js ''pdf2pic''), Pdf2picBulk b], Inr [])
           | Inr (Some results) \<Rightarrow>
               if results = [] then ([Require (js ''pdf2pic''), Pdf2picBulk b], Inr [])
               else (case foldl (ocrPage w) ([Require (js ''pdf2pic''), Pdf2picBulk b], []) results of
                       (calls, extractedText) \<Rightarrow> (calls, Inr (trim extractedText)))))"


text \<open>The messages of the bad-request exceptions, and the three errors named by the specification.\<close>

definition UnsupportedFormat :: exn where
  "UnsupportedFormat = BadRequestException
     (js ''Unsupported file. Please upload a PDF (.pdf), Word document (.docx) or image.'')"

definition MalformedDocument :: exn where
  "MalformedDocument = BadRequestException
     (js ''Failed to parse Word document. Please ensure it'' @ [39] @ js ''s a valid .docx file.'')"

definition NoExtractableText :: exn where
  "NoExtractableText = BadRequestException
     (js ''Failed to extract text from the provided file. Please try a different file or enable OCR.'')"

definition ImageOcrFailed :: exn where
  "ImageOcrFailed = BadRequestException (js ''Failed to OCR the uploaded image.'')"

definition NoFileProvided :: exn where
  "NoFileProvided = BadRequestException (js ''No file provided'')"

text \<open>
  \<open>importFromFile\<close>, lines 76 to 103: resolving \<open>pdf-parse\<close> and running it. A failure of
  either leaves \<open>text\<close> empty.
\<close>

definition resolvePdfParse :: "world \<Rightarrow> call list \<times> (buffer \<Rightarrow> exn + jsstring option) option" where
  "resolvePdfParse w =
     (case requirePdfParse w of
        Inr m \<Rightarrow>
          ([Require (js ''pdf-parse'')],
           (case m of ExportsFunction f \<Rightarrow> Some f | ExportsDefault f \<Rightarrow> Some f
            | ExportsOther \<Rightarrow> None))
      | Inl e1 \<Rightarrow>
          ([Require (js ''pdf-parse''), Require (js ''pdf-parse/lib/pdf-parse.js'')],
           (case requirePdfParseLib w of
              Inr (ExportsFunction f) \<Rightarrow> Some f
            | Inr (ExportsDefault f) \<Rightarrow> None
            | Inr ExportsOther \<Rightarrow> None
            | Inl e2 \<Rightarrow> None)))"

definition pdfNative :: "world \<Rightarrow> buffer \<Rightarrow> call list \<times> jsstring" where
  "pdfNative w b =
     (case resolvePdfParse w of
        (calls, None) \<Rightarrow> (calls, [])
      | (calls, Some pdfParseFunc) \<Rightarrow>
          (calls @ [PdfParse b],
           (case pdfParseFunc b of
              Inl err \<Rightarrow> []
            | Inr None \<Rightarrow> []
            | Inr (Some t) \<Rightarrow> t)))"

text \<open>Lines 73 to 117: the PDF branch with the fallback to OCR.\<close>

definition pdfText :: "world \<Rightarrow> buffer \<Rightarrow> call list \<times> jsstring" where
  "pdfText w b =
     (case pdfNative w b of (calls, text) \<Rightarrow>
        if text = [] \<or> length (trim text) < 20
        then (case ocrPdfBuffer w b of
                (cs, Inl ocrErr) \<Rightarrow> (calls @ cs, text)
              | (cs, Inr ocrText) \<Rightarrow> (calls @ cs, if ocrText \<noteq> [] then ocrText else text))
        else (calls, text))"

text \<open>Lines 118 to 129: the Word branch.\<close>

definition wordText :: "world \<Rightarrow> buffer \<Rightarrow> call list \<times> (exn + jsstring)" where
  "wordText w b =
     (case requireMammoth w of
        Inl err \<Rightarrow> ([Require (js ''mammoth'')], Inl MalformedDocument)
      | Inr extractRawText \<Rightarrow>
          ([Require (js ''mammoth''), MammothExtractRawText b],
           (case extractRawText b of
              Inl err \<Rightarrow> Inl MalformedDocument
            | Inr None \<Rightarrow> Inr []
            | Inr (Some v) \<Rightarrow> Inr v)))"

text \<open>Lines 130 to 139: the image branch.\<close>

definition imageText :: "world \<Rightarrow> buffer \<Rightarrow> call list \<times> (exn + jsstring)" where
  "imageText w b =
     (case recognizeImageBuffer w b of
        (cs, Inl err) \<Rightarrow> (cs, Inl ImageOcrFailed)
      | (cs, Inr ocrText) \<Rightarrow> (cs, Inr ocrText))"

text \<open>Lines 67 to 144: the dispatch on the lower-cased MIME type.\<close>

definition dispatch :: "world \<Rightarrow> File \<Rightarrow> call list \<times> (exn + jsstring)" where
  "dispatch w file =
     (let mime = toLowerCase w (mimetype file) in
      if includesStr (js ''pdf'') mime
      then (case pdfText w (buffer file) of (cs, text) \<Rightarrow> (cs, Inr text))
      else if includesStr (js ''word'') mime \<or> includesStr (js ''officedocument'') mime
      then wordText w (buffer file)
      else if startsWith (js ''image/'') mime
      then imageText w (buffer file)
      else ([], Inl UnsupportedFormat))"

text \<open>Lines 67 to 149: the text of the file, or the exception thrown before any is used.\<close>

definition extractText :: "world \<Rightarrow> File \<Rightarrow> call list \<times> (exn + jsstring)" where
  "extractText w file =
     (case dispatch w file of
        (cs, Inl e) \<Rightarrow> (cs, Inl e)
      | (cs, Inr text) \<Rightarrow>
          if text = [] \<or> trim text = [] then (cs, Inl NoExtractableText) else (cs, Inr text))"

text \<open>\<open>/\n{2,}/\<close> and \<open>/\.[^/.]+$/\<close>\<close>

definition rxBlankLines :: regex where
  "rxBlankLines = [Rep (\<lambda>c. c = 10) 2 None Greedy]"

definition rxExtension :: regex where
  "rxExtension = [one (isChar CHR ''.''),
                  Rep (\<lambda>c. c \<noteq> of_char CHR ''/'' \<and> c \<noteq> of_char CHR ''.'') 1 None Greedy, Eos]"

text \<open>\<open>String.prototype.replace\<close> with a regular expression without the \<open>g\<close> flag.\<close>

definition replaceFirst :: "regex \<Rightarrow> jsstring \<Rightarrow> jsstring \<Rightarrow> jsstring" where
  "replaceFirst r s new =
     (case search r 0 s of None \<Rightarrow> s | Some (a, ms, b) \<Rightarrow> take a s @ new @ drop b s)"

text \<open>Line 151: \<open>text.trim().split(/\n{2,}/)[0]?.slice(0, 1200) ?? "Imported resume"\<close>\<close>

definition summaryOf :: "jsstring \<Rightarrow> jsstring" where
  "summaryOf text =
     (case splitRx rxBlankLines (trim text) of
        [] \<Rightarrow> js ''Imported resume''
      | first # rest \<Rightarrow> take 1200 first)"

text \<open>
  Lines 162 to 177: the search for a free slug. The loop ends when no row is found or
  the query throws; nothing in the source bounds it, so not returning is \<open>None\<close>.
\<close>

partial_function (option) uniqueSlug ::
  "world \<Rightarrow> jsstring \<Rightarrow> jsstring \<Rightarrow> jsstring \<times> jsstring \<times> nat \<Rightarrow> call list
     \<Rightarrow> (call list \<times> jsstring \<times> jsstring) option" where
  "uniqueSlug w uid baseTitle st calls =
     (case st of (t, sl, counter) \<Rightarrow>
        (case findFirst w uid sl of
           Inl error \<Rightarrow> Some (calls @ [ResumeFindFirst uid sl], t, sl)
         | Inr exists \<Rightarrow>
             if \<not> exists then Some (calls @ [ResumeFindFirst uid sl], t, sl)
             else uniqueSlug w uid baseTitle
                    (baseTitle @ js '' ('' @ dec counter @ js '')'',
                     slugify w (baseTitle @ js '' ('' @ dec counter @ js '')''),
                     counter + 1)
                    (calls @ [ResumeFindFirst uid sl])))"

text \<open>
  \<open>importFromFile\<close>. The value of \<open>generateRandomName()\<close> on line 152 is never used. An
  exception of \<open>prisma.resume.create\<close> is not caught here.
\<close>

definition importFromFile :: "world \<Rightarrow> jsstring \<Rightarrow> File \<Rightarrow> (call list \<times> (exn + Resume)) option" where
  "importFromFile w uid file =
     (case extractText w file of
        (cs, Inl e) \<Rightarrow> Some (cs, Inl e)
      | (cs, Inr text) \<Rightarrow>
          (let summary = summaryOf text;
               baseTitle = replaceFirst rxExtension (originalname file) []
           in case uniqueSlug w uid baseTitle (baseTitle, slugify w baseTitle, 1) cs of
                None \<Rightarrow> None
              | Some (cs', t, sl) \<Rightarrow>
                  (let input = \<lparr>userId = uid, visibility = js ''private'', headline = summary,
                                resumeTitle = t, slug = sl\<rparr>
                   in Some (cs' @ [ResumeCreate input],
                            (case create w input of Inl e \<Rightarrow> Inl e | Inr resume \<Rightarrow> Inr resume)))))"

declare uniqueSlug.simps [code]

section \<open>ResumeController\<close>

text \<open>What the endpoint returns: \<open>{ text, parsed }\<close> or the created row.\<close>

datatype response = TextAndParsed jsstring ParsedResume | Created Resume

text \<open>
  \<open>importFile\<close>: the uploaded file is \<open>None\<close> when the request has none. Everything thrown in
  the body is caught and thrown again inside an internal-server-error exception.
\<close>

definition importFile :: "world \<Rightarrow> jsstring \<Rightarrow> File option \<Rightarrow> (call list \<times> (exn + response)) option" where
  "importFile w uid upload =
     (case upload of
        None \<Rightarrow> Some ([], Inl (InternalServerErrorException NoFileProvided))
      | Some file \<Rightarrow>
          if startsWith (js ''image/'') (toLowerCase w (mimetype file))
          then (case recognizeImageBuffer w (buffer file) of
                  (cs, Inl error) \<Rightarrow> Some (cs, Inl (InternalServerErrorException error))
                | (cs, Inr text) \<Rightarrow>
                    Some (cs, Inr (TextAndParsed text (parse (toLowerCase w) text))))
          else (case importFromFile w uid file of
                  None \<Rightarrow> None
                | Some (cs, Inl error) \<Rightarrow> Some (cs, Inl (InternalServerErrorException error))
                | Some (cs, Inr resume) \<Rightarrow> Some (cs, Inr (Created resume))))"

section \<open>Concrete collaborators\<close>

text \<open>
  A world for evaluating the services: every library is installed, \<open>pdf-parse\<close> and
  \<open>mammoth\<close> return the bytes of the file as its text, each page of a PDF is the page
  image \<open>Buffer [i]\<close>, which is recognized as \<open>page{i}\<close>, any other image as the text
  of its bytes; the slug of a title is the title and no row exists yet.
\<close>

definition bytesText :: "buffer \<Rightarrow> jsstring" where
  "bytesText b = (case b of Buffer bs \<Rightarrow> bs)"

definition pageImages :: "nat \<Rightarrow> buffer option list" where
  "pageImages n = map (\<lambda>i. Some (Buffer [i])) [0..<n]"

definition recognizePage :: "buffer \<Rightarrow> exn + jsstring option" where
  "recognizePage b =
     (case b of Buffer [i] \<Rightarrow> Inr (Some (js ''page'' @ dec i)) | Buffer bs \<Rightarrow> Inr (Some bs))"

definition world0 :: "nat \<Rightarrow> world" where
  "world0 pages =
     \<lparr>toLowerCase = asciiLower,
      requirePdfParse = Inr (ExportsFunction (\<lambda>b. Inr (Some (bytesText b)))),
      requirePdfParseLib = Inl (Error (js ''Cannot find module'')),
      requireMammoth = Inr (\<lambda>b. Inr (Some (bytesText b))),
      requireTesseract = Inr recognizePage,
      requirePdf2pic = Inr (\<lambda>b. Inr (Some (pageImages pages))),
      slugify = (\<lambda>s. s),
      findFirst = (\<lambda>uid sl. Inr False),
      create = (\<lambda>input. Inr (Resume (js ''id1'') input))\<rparr>"

text \<open>The same world with a \<open>mammoth\<close> that rejects every file.\<close>

definition brokenMammoth :: world where
  "brokenMammoth = (world0 0)\<lparr>requireMammoth := Inr (\<lambda>b. Inl (Error (js ''not a docx'')))\<rparr>"

section \<open>Evaluation\<close>

lemmas cls_defs = isSpace_def isChar_def inRange_def canon_def ci_def one_def lit_def dot_def
  digit_def letter_def emailLocal_def emailDomain_def nameChar_def skillSep_def listSep_def
  dashAt_def below_def

lemmas rx_defs = rxEmail_def rxPhone_def rxNewline_def rxName_def rxSpaces_def rxSkills_def
  rxSkillSep_def rxListSep_def rxExperience_def rxWorkExperience_def rxEducation_def rxEntry_def

lemmas op_defs = test_def match0_def substring_def splitRx_def trim_def startsWith_def
  testEducationWords_def matchEntry_def linesOf_def parseName_def isSkillLine_def
  skillParts_def sectionStep_def sectionsLoop_def

section \<open>Anchored patterns\<close>

lemma search_Bos: "0 < pos \<Longrightarrow> search (Bos # r) pos s = None"
  by (induction s arbitrary: pos) auto

lemma test_Bos: "test (Bos # r) s = (rx r 0 0 s [] \<noteq> None)"
  by (cases s) (auto simp: test_def search_Bos split: option.splits)

text \<open>A bounded class between both anchors matches the strings of the class with a length in the bounds.\<close>

lemma rx_class_Eos:
  "k \<le> hi \<Longrightarrow> rx [Rep c lo (Some hi) Greedy, Eos] k pos s ms =
     (if list_all c s \<and> lo \<le> k + length s \<and> k + length s \<le> hi
      then Some (rev ms, pos + length s) else None)"
proof (induction s arbitrary: k pos)
  case Nil
  then show ?case by simp
next
  case (Cons x xs)
  show ?case
  proof (cases "c x \<and> k < hi")
    case True
    then have "Suc k \<le> hi" by simp
    from Cons.IH [OF this] True show ?thesis by (auto simp: below_def)
  next
    case False
    with Cons.prems show ?thesis by (auto simp: below_def)
  qed
qed

lemma test_rxName: "test rxName s = (list_all nameChar s \<and> 2 \<le> length s \<and> length s \<le> 80)"
  by (simp add: rxName_def test_Bos rx_class_Eos)

section \<open>The parser keeps its input\<close>

lemma linesOf_Nil: "linesOf [] = []"
  by (simp add: linesOf_def splitRx_def rxNewline_def one_def trim_def)

lemma parse_empty:
  "parse lower [] = \<lparr>name = None, email = None, phone = None, skills = [], experience = [],
     education = [], raw = []\<rparr>"
  by (simp add: parse_def linesOf_Nil parseName_def match0_def rxEmail_def rxPhone_def one_def
      sectionsLoop_def)

lemma parse_unstructured:
  "parse lower (js ''?? 42 !!'') = \<lparr>name = None, email = None, phone = None, skills = [],
     experience = [], education = [], raw = js ''?? 42 !!''\<rparr>"
  by (simp add: parse_def Let_def cls_defs rx_defs op_defs)

text \<open>
  C8. For every input, the \<open>raw\<close> field of the result of \<open>parse\<close> is the input itself. The
  empty input gives the empty \<open>raw\<close> with every other field absent or empty, and so does
  an input without any structure, whose \<open>raw\<close> is still the input.
\<close>

theorem parse_raw:
  "raw (parse lower text) = text
   \<and> parse lower [] = \<lparr>name = None, email = None, phone = None, skills = [], experience = [],
        education = [], raw = []\<rparr>
   \<and> parse lower (js ''?? 42 !!'') = \<lparr>name = None, email = None, phone = None, skills = [],
        experience = [], education = [], raw = js ''?? 42 !!''\<rparr>"
  using parse_empty [of lower] parse_unstructured [of lower] by (simp add: parse_def Let_def)

theorem parse_raw_witness:
  "raw (parse asciiLower (js ''John Smith\<newline>Software Engineer'')) = js ''John Smith\<newline>Software Engineer''"
  using parse_raw [of asciiLower "js ''John Smith\<newline>Software Engineer''"] by (rule conjunct1)

section \<open>The name rule\<close>

lemma parseName_words:
  "parseName ls =
     (case ls of [] \<Rightarrow> None
      | c # rest \<Rightarrow>
          if list_all nameChar c \<and> 2 \<le> length c \<and> length c \<le> 80
             \<and> length (splitRx rxSpaces c) \<le> 5
          then Some c else None)"
  by (simp add: parseName_def test_rxName split: list.splits)

text \<open>
  C5, amended. The name is the first non-empty trimmed line exactly when that line
  consists of ASCII letters, spaces and the characters \<open>,.'-\<close> only, has length 2 to 80
  and splits on white space into at most 5 tokens; otherwise the name is absent. The
  first line \<open>John Smith\<close> is taken as the name, and so is \<open>JOHN SMITH - RESUME\<close>: the
  dash is in the class and the line has four tokens.
\<close>

theorem parse_name:
  "name (parse lower text) =
     (case linesOf text of [] \<Rightarrow> None
      | c # rest \<Rightarrow>
          if list_all nameChar c \<and> 2 \<le> length c \<and> length c \<le> 80
             \<and> length (splitRx rxSpaces c) \<le> 5
          then Some c else None)
   \<and> name (parse lower (js ''John Smith\<newline>Software Engineer'')) = Some (js ''John Smith'')
   \<and> name (parse lower (js ''JOHN SMITH - RESUME\<newline>...'')) = Some (js ''JOHN SMITH - RESUME'')"
proof -
  have a: "name (parse lower t) = parseName (linesOf t)" for t
    by (simp add: parse_def Let_def)
  have b: "parseName (linesOf (js ''John Smith\<newline>Software Engineer'')) = Some (js ''John Smith'')"
    by (simp add: cls_defs rx_defs op_defs)
  have c: "parseName (linesOf (js ''JOHN SMITH - RESUME\<newline>...'')) = Some (js ''JOHN SMITH - RESUME'')"
    by (simp add: cls_defs rx_defs op_defs)
  show ?thesis
    unfolding a b c by (simp add: parseName_words)
qed

theorem parse_name_witness:
  "name (parse asciiLower (js ''Curriculum Vitae of Ms Jane Q. Smith\<newline>x'')) = None
   \<and> name (parse asciiLower (js ''  Jane O'' @ [39] @ js ''Neil-Smith, Jr.  \<newline>x'')) = Some (js ''Jane O'' @ [39] @ js ''Neil-Smith, Jr.'')
   \<and> name (parse asciiLower (js ''J\<newline>x'')) = None
   \<and> name (parse asciiLower (js ''Jane Smith 3rd\<newline>x'')) = None"
proof -
  have l: "linesOf (js ''Curriculum Vitae of Ms Jane Q. Smith\<newline>x'') = [js ''Curriculum Vitae of Ms Jane Q. Smith'', js ''x'']"
     "linesOf (js ''  Jane O'' @ [39] @ js ''Neil-Smith, Jr.  \<newline>x'') = [js ''Jane O'' @ [39] @ js ''Neil-Smith, Jr.'', js ''x'']"
     "linesOf (js ''J\<newline>x'') = [js ''J'', js ''x'']"
     "linesOf (js ''Jane Smith 3rd\<newline>x'') = [js ''Jane Smith 3rd'', js ''x'']"
    by (simp_all add: cls_defs rx_defs op_defs)
  show ?thesis
    using parse_name [of asciiLower "js ''Curriculum Vitae of Ms Jane Q. Smith\<newline>x''"]
      parse_name [of asciiLower "js ''  Jane O'' @ [39] @ js ''Neil-Smith, Jr.  \<newline>x''"]
      parse_name [of asciiLower "js ''J\<newline>x''"]
      parse_name [of asciiLower "js ''Jane Smith 3rd\<newline>x''"]
    unfolding l by (simp add: cls_defs rx_defs op_defs)
qed

text \<open>
  C5 as stated has \<open>parse("JOHN SMITH - RESUME\n...")\<close> yield no name; the parser yields
  the whole first line.
\<close>

theorem parse_name_counterexample:
  "name (parse asciiLower (js ''JOHN SMITH - RESUME\<newline>...'')) = Some (js ''JOHN SMITH - RESUME'')"
  by (simp add: parse_def Let_def cls_defs rx_defs op_defs)

section \<open>The skills rule\<close>

text \<open>Trimming is idempotent, and a trimmed string neither starts nor ends with white space.\<close>

lemma trim_idem: "trim (trim s) = trim s"
  unfolding trim_def
  by (metis (no_types, lifting) ext Nil_is_rev_conv dropWhile_eq_Nil_conv
    dropWhile_eq_self_iff dropWhile_last hd_dropWhile last_rev
    rev_swap)

lemma trimmed_ends: "s \<noteq> [] \<Longrightarrow> trim s = s \<Longrightarrow> \<not> isSpace (hd s) \<and> \<not> isSpace (last s)"
  unfolding trim_def
  by (metis Nil_is_rev_conv dropWhile_eq_Nil_conv dropWhile_eq_self_iff
    dropWhile_last hd_dropWhile last_rev rev_swap)

lemma skillsLoop_find:
  "skillsLoop lower ls = (case find (isSkillLine lower) ls of None \<Rightarrow> [] | Some line \<Rightarrow> skillParts line)"
  by (induction ls) auto

lemma rx_one: "rx [one c] 0 0 (x # xs) [] = (if c x then Some ([], 1) else None)"
  by (cases xs) (auto simp: one_def below_def)

lemma splitFrom_ne: "splitFrom r acc s \<noteq> []"
  by (induction r acc s rule: splitFrom.induct) (auto split: option.splits)

lemma join_Cons: "ps \<noteq> [] \<Longrightarrow> join sep (p # ps) = p @ sep @ join sep ps"
  by (cases ps) auto

lemma join_splitFrom:
  "join [32] (splitFrom [one c] acc s) = rev acc @ map (\<lambda>x. if c x then 32 else x) s"
  by (induction s arbitrary: acc) (auto simp: rx_one join_Cons splitFrom_ne)

lemma tl_splitFrom:
  "tl (splitFrom [one c] acc s) =
     (case dropWhile (\<lambda>x. \<not> c x) s of [] \<Rightarrow> [] | x # rest \<Rightarrow> splitFrom [one c] [] rest)"
  by (induction s arbitrary: acc) (auto simp: rx_one)

lemma join_drop_split:
  "join [32] (drop 1 (splitRx [one c] s)) =
     map (\<lambda>x. if c x then 32 else x) (drop 1 (dropWhile (\<lambda>x. \<not> c x) s))"
proof (cases s)
  case Nil
  then show ?thesis by (simp add: splitRx_def one_def)
next
  case (Cons a as)
  then have "splitRx [one c] s = splitFrom [one c] [] s"
    by (simp add: splitRx_def)
  then have a: "drop 1 (splitRx [one c] s) = tl (splitFrom [one c] [] s)"
    by (simp add: drop_Suc)
  have "join [32] (case d of [] \<Rightarrow> [] | x # rest \<Rightarrow> splitFrom [one c] [] rest) =
      map (\<lambda>x. if c x then 32 else x) (drop 1 d)" for d
    by (cases d) (simp_all add: join_splitFrom)
  then show ?thesis
    unfolding a tl_splitFrom .
qed

lemma skillParts_words:
  "skillParts line = filter (\<lambda>s. s \<noteq> []) (map trim (splitRx rxListSep
      (map (\<lambda>c. if skillSep c then 32 else c) (drop 1 (dropWhile (\<lambda>c. \<not> skillSep c) line)))))"
  using join_drop_split [of skillSep line] by (simp add: skillParts_def rxSkillSep_def)

lemma skillParts_trimmed: "s \<in> set (skillParts line) \<Longrightarrow> s \<noteq> [] \<and> trim s = s"
  by (auto simp: skillParts_def trim_idem)

lemma skillsLoop_trimmed: "s \<in> set (skillsLoop lower ls) \<Longrightarrow> s \<noteq> [] \<and> trim s = s"
  by (induction ls) (auto simp: skillParts_trimmed split: if_splits)

text \<open>
  C7, amended. The skills come from the first of the first 30 non-empty lines that
  matches \<open>/^skills?/i\<close> or whose lower-case form contains \<open>skill\<close>, and from no other
  line. Of that line the part after the first \<open>:\<close>, \<open>-\<close>, en dash or line feed is taken,
  with every later one of these replaced by a space (the em dash is no separator); it is
  split on \<open>;\<close>, \<open>,\<close>, \<open>|\<close>, bullet and middle dot, each token is trimmed and the empty
  ones are dropped. For every input every skill is a non-empty trimmed string.
\<close>

theorem parse_skills:
  "skills (parse lower text) =
     (case find (isSkillLine lower) (take 30 (linesOf text)) of
        None \<Rightarrow> []
      | Some line \<Rightarrow>
          filter (\<lambda>s. s \<noteq> []) (map trim (splitRx rxListSep
            (map (\<lambda>c. if skillSep c then 32 else c)
               (drop 1 (dropWhile (\<lambda>c. \<not> skillSep c) line))))))
   \<and> list_all (\<lambda>s. s \<noteq> [] \<and> trim s = s \<and> \<not> isSpace (hd s) \<and> \<not> isSpace (last s))
        (skills (parse lower text))"
proof
  show "skills (parse lower text) =
     (case find (isSkillLine lower) (take 30 (linesOf text)) of
        None \<Rightarrow> []
      | Some line \<Rightarrow>
          filter (\<lambda>s. s \<noteq> []) (map trim (splitRx rxListSep
            (map (\<lambda>c. if skillSep c then 32 else c)
               (drop 1 (dropWhile (\<lambda>c. \<not> skillSep c) line))))))"
    by (simp add: parse_def Let_def skillsLoop_find skillParts_words cong: option.case_cong)
  show "list_all (\<lambda>s. s \<noteq> [] \<and> trim s = s \<and> \<not> isSpace (hd s) \<and> \<not> isSpace (last s))
        (skills (parse lower text))"
    using skillsLoop_trimmed trimmed_ends
    by (auto simp: parse_def Let_def list_all_iff)
qed

theorem parse_skills_witness:
  "skills (parse asciiLower (js ''Jane Doe\<newline>Technical skills - Java; C | Go, front-end'')) =
     [js ''Java'', js ''C'', js ''Go'', js ''front end'']
   \<and> list_all (\<lambda>s. s \<noteq> [] \<and> trim s = s \<and> \<not> isSpace (hd s) \<and> \<not> isSpace (last s))
        (skills (parse asciiLower (js ''Jane Doe\<newline>Technical skills - Java; C | Go, front-end'')))"
proof
  show "skills (parse asciiLower (js ''Jane Doe\<newline>Technical skills - Java; C | Go, front-end'')) =
     [js ''Java'', js ''C'', js ''Go'', js ''front end'']"
    by (simp add: parse_def Let_def cls_defs rx_defs op_defs asciiLower_def)
  show "list_all (\<lambda>s. s \<noteq> [] \<and> trim s = s \<and> \<not> isSpace (hd s) \<and> \<not> isSpace (last s))
        (skills (parse asciiLower (js ''Jane Doe\<newline>Technical skills - Java; C | Go, front-end'')))"
    using parse_skills [of asciiLower "js ''Jane Doe\<newline>Technical skills - Java; C | Go, front-end''"]
    by (rule conjunct2)
qed

text \<open>
  C7 as stated keeps everything after the first separator and counts the em dash as one:
  a hyphen inside a skill is replaced by a space, and a line whose only separator is an
  em dash gives no skills.
\<close>

theorem parse_skills_counterexample:
  "skills (parse asciiLower (js ''Skills: front-end, back-end'')) = [js ''front end'', js ''back end'']
   \<and> specSkillParts (js ''Skills: front-end, back-end'') = [js ''front-end'', js ''back-end'']
   \<and> skills (parse asciiLower (js ''Skills '' @ [8212] @ js '' Java, C'')) = []
   \<and> specSkillParts (js ''Skills '' @ [8212] @ js '' Java, C'') = [js ''Java'', js ''C'']"
  by (simp add: parse_def Let_def cls_defs rx_defs op_defs asciiLower_def specSkillParts_def specSkillSep_def)

section \<open>Experience and education\<close>

lemma sectionStep_header:
  "test rxExperience line \<or> test rxWorkExperience line \<Longrightarrow>
     sectionStep (cur, exps, edus) line = (Some SecExperience, exps, edus)"
  "test rxEducation line \<or> testEducationWords line \<Longrightarrow>
     \<not> (test rxExperience line \<or> test rxWorkExperience line) \<Longrightarrow>
     sectionStep (cur, exps, edus) line = (Some SecEducation, exps, edus)"
  by (simp_all add: sectionStep_def)

lemma sections_example:
  "sectionsLoop (linesOf (js ''Experience\<newline>Senior Engineer - Acme Corp (2019-2022)\<newline>Education\<newline>BSc Computer Science - MIT (2015)'')) =
    (Some SecEducation,
     [\<lparr>title = Some (js ''Senior Engineer''), company = Some (js ''Acme Corp''),
       dateRange = Some (js ''2019-2022''), description = None\<rparr>],
     [\<lparr>degree = Some (js ''BSc Computer Science''), institution = Some (js ''MIT''),
       eduDateRange = Some (js ''2015'')\<rparr>])"
  by (simp add: cls_defs rx_defs op_defs)

text \<open>
  C6. The example of the specification gives one experience entry and one education
  entry with the stated fields. On every line the section headers are tested before the
  entry pattern: a line that is a header only switches the section, whatever else it
  matches.
\<close>

theorem parse_sections:
  "experience (parse lower (js ''Experience\<newline>Senior Engineer - Acme Corp (2019-2022)\<newline>Education\<newline>BSc Computer Science - MIT (2015)'')) =
     [\<lparr>title = Some (js ''Senior Engineer''), company = Some (js ''Acme Corp''),
       dateRange = Some (js ''2019-2022''), description = None\<rparr>]
   \<and> education (parse lower (js ''Experience\<newline>Senior Engineer - Acme Corp (2019-2022)\<newline>Education\<newline>BSc Computer Science - MIT (2015)'')) =
     [\<lparr>degree = Some (js ''BSc Computer Science''), institution = Some (js ''MIT''),
       eduDateRange = Some (js ''2015'')\<rparr>]
   \<and> (\<forall>line cur exps edus. test rxExperience line \<or> test rxWorkExperience line \<longrightarrow>
        sectionStep (cur, exps, edus) line = (Some SecExperience, exps, edus))
   \<and> (\<forall>line cur exps edus. test rxEducation line \<or> testEducationWords line \<longrightarrow>
        \<not> (test rxExperience line \<or> test rxWorkExperience line) \<longrightarrow>
        sectionStep (cur, exps, edus) line = (Some SecEducation, exps, edus))"
proof -
  have a: "experience (parse lower t) = fst (snd (sectionsLoop (linesOf t)))"
    "education (parse lower t) = snd (snd (sectionsLoop (linesOf t)))" for t
    by (simp_all add: parse_def Let_def)
  show ?thesis
    unfolding a sections_example using sectionStep_header by simp
qed

theorem parse_sections_witness:
  "matchEntry (js ''Experience - Acme Corp (2019)'') = Some (js ''Experience'', js ''Acme Corp'', js ''2019'')
   \<and> sectionStep (Some SecExperience, [], []) (js ''Experience - Acme Corp (2019)'') = (Some SecExperience, [], [])
   \<and> matchEntry (js ''Master of Science - MIT (2015)'') = Some (js ''Master of Science'', js ''MIT'', js ''2015'')
   \<and> sectionStep (Some SecEducation, [], []) (js ''Master of Science - MIT (2015)'') = (Some SecEducation, [], [])"
proof -
  have a: "test rxExperience (js ''Experience - Acme Corp (2019)'')"
    by (simp add: cls_defs rx_defs op_defs)
  have b: "testEducationWords (js ''Master of Science - MIT (2015)'')"
    "\<not> (test rxExperience (js ''Master of Science - MIT (2015)'') \<or> test rxWorkExperience (js ''Master of Science - MIT (2015)''))"
    by (simp_all add: cls_defs rx_defs op_defs)
  have c: "matchEntry (js ''Experience - Acme Corp (2019)'') = Some (js ''Experience'', js ''Acme Corp'', js ''2019'')"
    "matchEntry (js ''Master of Science - MIT (2015)'') = Some (js ''Master of Science'', js ''MIT'', js ''2015'')"
    by (simp_all add: cls_defs rx_defs op_defs)
  from parse_sections [of asciiLower] a b c show ?thesis
    by blast
qed

lemmas world_defs = world0_def bytesText_def pageImages_def recognizePage_def asciiLower_def

lemmas service_defs = extractText_def dispatch_def pdfText_def pdfNative_def resolvePdfParse_def
  ocrPdfBuffer_def ocrPage_def recognizeImageBuffer_def wordText_def imageText_def
  UnsupportedFormat_def MalformedDocument_def NoExtractableText_def ImageOcrFailed_def
  NoFileProvided_def

section \<open>What the extraction throws\<close>

lemma recognizeImageBuffer_cases:
  "recognizeImageBuffer w b = ([Require (js ''tesseract.js'')], Inr [])
   \<or> (\<exists>t. recognizeImageBuffer w b = ([Require (js ''tesseract.js''), TesseractRecognize b], Inr t))"
  by (auto simp: recognizeImageBuffer_def split: sum.splits option.splits)

lemma recognizeImageBuffer_no_throw: "snd (recognizeImageBuffer w b) \<noteq> Inl e"
  using recognizeImageBuffer_cases [of w b] by auto

lemma imageText_no_throw: "snd (imageText w b) \<noteq> Inl e"
  using recognizeImageBuffer_cases [of w b] by (auto simp: imageText_def)

lemma wordText_error: "snd (wordText w b) = Inl e \<Longrightarrow> e = MalformedDocument"
  by (auto simp: wordText_def split: sum.splits option.splits)

lemma dispatch_error:
  "snd (dispatch w f) = Inl e \<Longrightarrow> e = UnsupportedFormat \<or> e = MalformedDocument"
  using imageText_no_throw [of w "buffer f" e] wordText_error [of w "buffer f" e]
  by (auto simp: dispatch_def Let_def split: if_splits prod.splits)

lemma trim_Nil: "(trim s = []) = list_all isSpace s"
  unfolding trim_def list_all_iff
  by (metis dropWhile_eq_Nil_conv set_rev rev_is_Nil_conv dropWhile_idem)

lemma errors_distinct:
  "UnsupportedFormat \<noteq> NoExtractableText" "MalformedDocument \<noteq> NoExtractableText"
  "UnsupportedFormat \<noteq> MalformedDocument"
  by (simp_all add: UnsupportedFormat_def NoExtractableText_def MalformedDocument_def)


text \<open>
  C3. After the dispatch and any OCR fallback the extraction throws the
  no-extractable-text exception exactly when the text is empty or all white space, and
  returns the text exactly when it is not. Its outcome is a text or one of the three
  named exceptions, and the check itself makes no call.
\<close>

theorem extractText_result:
  "(snd (extractText w f) = Inl NoExtractableText) =
     (\<exists>text. snd (dispatch w f) = Inr text \<and> list_all isSpace text)
   \<and> (\<forall>text. (snd (extractText w f) = Inr text) =
         (snd (dispatch w f) = Inr text \<and> \<not> list_all isSpace text))
   \<and> ((\<exists>text. snd (extractText w f) = Inr text)
       \<or> snd (extractText w f) = Inl UnsupportedFormat
       \<or> snd (extractText w f) = Inl MalformedDocument
       \<or> snd (extractText w f) = Inl NoExtractableText)
   \<and> fst (extractText w f) = fst (dispatch w f)"
proof (cases "dispatch w f")
  case (Pair cs r)
  show ?thesis
  proof (cases r)
    case (Inl e)
    with Pair dispatch_error [of w f e] errors_distinct show ?thesis
      by (auto simp: extractText_def)
  next
    case (Inr t)
    with Pair show ?thesis
      by (auto simp: extractText_def trim_Nil)
  qed
qed

theorem extractText_result_witness:
  "snd (extractText (world0 0)
      \<lparr>mimetype = js ''application/pdf'', originalname = js ''scan.pdf'', buffer = Buffer (js ''  \<newline> '')\<rparr>)
     = Inl NoExtractableText
   \<and> snd (extractText (world0 0)
      \<lparr>mimetype = js ''application/msword'', originalname = js ''cv.doc'', buffer = Buffer (js '' Jane Doe'')\<rparr>)
     = Inr (js '' Jane Doe'')"
proof -
  have a: "snd (dispatch (world0 0)
      \<lparr>mimetype = js ''application/pdf'', originalname = js ''scan.pdf'', buffer = Buffer (js ''  \<newline> '')\<rparr>)
      = Inr (js ''  \<newline> '')"
    by (simp add: service_defs world_defs startsWith_def trim_def isSpace_def)
  have b: "snd (dispatch (world0 0)
      \<lparr>mimetype = js ''application/msword'', originalname = js ''cv.doc'', buffer = Buffer (js '' Jane Doe'')\<rparr>)
      = Inr (js '' Jane Doe'')"
    by (simp add: service_defs world_defs startsWith_def)
  have c: "list_all isSpace (js ''  \<newline> '')" "\<not> list_all isSpace (js '' Jane Doe'')"
    by (simp_all add: isSpace_def)
  from a b c
    extractText_result [of "world0 0" "\<lparr>mimetype = js ''application/pdf'', originalname = js ''scan.pdf'', buffer = Buffer (js ''  \<newline> '')\<rparr>"]
    extractText_result [of "world0 0" "\<lparr>mimetype = js ''application/msword'', originalname = js ''cv.doc'', buffer = Buffer (js '' Jane Doe'')\<rparr>"]
  show ?thesis by blast
qed

section \<open>The OCR fallback of the PDF branch\<close>

lemma resolvePdfParse_calls:
  "fst (resolvePdfParse w) = [Require (js ''pdf-parse'')]
   \<or> fst (resolvePdfParse w) = [Require (js ''pdf-parse''), Require (js ''pdf-parse/lib/pdf-parse.js'')]"
  by (auto simp: resolvePdfParse_def split: sum.splits)

lemma pdfNative_calls:
  "c \<in> set (fst (pdfNative w b)) \<Longrightarrow>
     c = Require (js ''pdf-parse'') \<or> c = Require (js ''pdf-parse/lib/pdf-parse.js'') \<or> c = PdfParse b"
  using resolvePdfParse_calls [of w]
  by (cases "resolvePdfParse w") (auto simp: pdfNative_def split: option.splits)

lemma pdfNative_no_ocr:
  "Require (js ''pdf2pic'') \<notin> set (fst (pdfNative w b))"
  "Require (js ''tesseract.js'') \<notin> set (fst (pdfNative w b))"
  "Pdf2picBulk b' \<notin> set (fst (pdfNative w b))"
  "TesseractRecognize b' \<notin> set (fst (pdfNative w b))"
  using pdfNative_calls [of "Require (js ''pdf2pic'')" w b]
    pdfNative_calls [of "Require (js ''tesseract.js'')" w b]
    pdfNative_calls [of "Pdf2picBulk b'" w b]
    pdfNative_calls [of "TesseractRecognize b'" w b]
  by auto

lemma ocrPage_calls: "\<exists>cs t. ocrPage w (calls, acc) r = (calls @ cs, t)"
  by (auto simp: ocrPage_def split: option.splits sum.splits prod.splits)

lemma ocrPage_no_throw:
  "\<exists>cs t. foldl (ocrPage w) (calls, acc) results = (calls @ cs, t)"
proof (induction results arbitrary: calls acc)
  case Nil
  then show ?case by simp
next
  case (Cons r rs)
  obtain c1 a1 where s: "ocrPage w (calls, acc) r = (calls @ c1, a1)"
    using ocrPage_calls by blast
  from Cons.IH [of "calls @ c1" a1] s show ?case by auto
qed

lemma ocrPdfBuffer_shape:
  "\<exists>cs t. ocrPdfBuffer w b = (Require (js ''pdf2pic'') # cs, Inr t)"
proof (cases "requirePdf2pic w")
  case (Inl e)
  then show ?thesis by (simp add: ocrPdfBuffer_def)
next
  case (Inr bulk)
  note bulk = this
  show ?thesis
  proof (cases "bulk b")
    case (Inl e)
    with bulk show ?thesis by (simp add: ocrPdfBuffer_def)
  next
    case (Inr r)
    show ?thesis
    proof (cases r)
      case None
      with bulk Inr show ?thesis by (simp add: ocrPdfBuffer_def)
    next
      case (Some results)
      obtain cs t where "foldl (ocrPage w) ([Require (js ''pdf2pic''), Pdf2picBulk b], []) results
          = ([Require (js ''pdf2pic''), Pdf2picBulk b] @ cs, t)"
        using ocrPage_no_throw by blast
      with bulk Inr Some show ?thesis by (simp add: ocrPdfBuffer_def)
    qed
  qed
qed

lemma dispatch_pdf:
  "includesStr (js ''pdf'') (toLowerCase w (mimetype f)) \<Longrightarrow>
     dispatch w f = (fst (pdfText w (buffer f)), Inr (snd (pdfText w (buffer f))))"
  by (simp add: dispatch_def Let_def split: prod.splits)

lemma pdfText_native:
  "20 \<le> length (trim (snd (pdfNative w b))) \<Longrightarrow> pdfText w b = pdfNative w b"
  by (cases "pdfNative w b") (auto simp: pdfText_def trim_def)

lemma pdfText_fallback:
  "length (trim (snd (pdfNative w b))) < 20 \<Longrightarrow> ocrPdfBuffer w b = (cs, Inr ocr) \<Longrightarrow>
     pdfText w b = (fst (pdfNative w b) @ cs, if ocr \<noteq> [] then ocr else snd (pdfNative w b))"
  by (cases "pdfNative w b") (auto simp: pdfText_def)

text \<open>
  C2. For a PDF the fallback is attempted (\<open>pdf2pic\<close> is required) exactly when the
  trimmed native text is shorter than 20. With 20 or more the native text is the result
  and neither the rasterizer nor the OCR library is loaded or called. With less, the
  result of \<open>ocrPdfBuffer\<close> replaces the native text when it is not empty, and the native
  text is kept otherwise.
\<close>

theorem pdf_fallback:
  "includesStr (js ''pdf'') (toLowerCase w (mimetype f)) \<Longrightarrow>
     (Require (js ''pdf2pic'') \<in> set (fst (dispatch w f)))
        = (length (trim (snd (pdfNative w (buffer f)))) < 20)
     \<and> (20 \<le> length (trim (snd (pdfNative w (buffer f)))) \<longrightarrow>
          dispatch w f = (fst (pdfNative w (buffer f)), Inr (snd (pdfNative w (buffer f))))
          \<and> Require (js ''tesseract.js'') \<notin> set (fst (dispatch w f))
          \<and> (\<forall>b. Pdf2picBulk b \<notin> set (fst (dispatch w f))
                 \<and> TesseractRecognize b \<notin> set (fst (dispatch w f))))
     \<and> (length (trim (snd (pdfNative w (buffer f)))) < 20 \<longrightarrow>
          (\<exists>cs ocr. ocrPdfBuffer w (buffer f) = (cs, Inr ocr)
             \<and> dispatch w f = (fst (pdfNative w (buffer f)) @ cs,
                  Inr (if ocr \<noteq> [] then ocr else snd (pdfNative w (buffer f))))))"
proof -
  assume pdf: "includesStr (js ''pdf'') (toLowerCase w (mimetype f))"
  obtain cs ocr where o: "ocrPdfBuffer w (buffer f) = (Require (js ''pdf2pic'') # cs, Inr ocr)"
    using ocrPdfBuffer_shape by blast
  show ?thesis
  proof (cases "length (trim (snd (pdfNative w (buffer f)))) < 20")
    case True
    from pdfText_fallback [OF True o] dispatch_pdf [OF pdf] o True show ?thesis
      by simp
  next
    case False
    then have "pdfText w (buffer f) = pdfNative w (buffer f)"
      by (simp add: pdfText_native)
    with dispatch_pdf [OF pdf] False pdfNative_no_ocr [where w = w and b = "buffer f"] show ?thesis
      by simp
  qed
qed

theorem pdf_fallback_witness:
  "dispatch (world0 3)
      \<lparr>mimetype = js ''application/pdf'', originalname = js ''cv.pdf'',
       buffer = Buffer (js ''John Smith, Software Engineer'')\<rparr>
     = ([Require (js ''pdf-parse''), PdfParse (Buffer (js ''John Smith, Software Engineer''))],
        Inr (js ''John Smith, Software Engineer''))
   \<and> Require (js ''pdf2pic'') \<in> set (fst (dispatch (world0 3)
      \<lparr>mimetype = js ''application/pdf'', originalname = js ''cv.pdf'',
       buffer = Buffer (js ''  John Smith  '')\<rparr>))"
proof -
  let ?f = "\<lparr>mimetype = js ''application/pdf'', originalname = js ''cv.pdf'',
       buffer = Buffer (js ''John Smith, Software Engineer'')\<rparr>"
  let ?g = "\<lparr>mimetype = js ''application/pdf'', originalname = js ''cv.pdf'',
       buffer = Buffer (js ''  John Smith  '')\<rparr>"
  have 1: "includesStr (js ''pdf'') (toLowerCase (world0 3) (mimetype ?f))"
    "includesStr (js ''pdf'') (toLowerCase (world0 3) (mimetype ?g))"
    by (simp_all add: world_defs startsWith_def)
  have 2: "pdfNative (world0 3) (buffer ?f) =
      ([Require (js ''pdf-parse''), PdfParse (Buffer (js ''John Smith, Software Engineer''))],
        js ''John Smith, Software Engineer'')"
    by (simp add: service_defs world_defs)
  have 3: "20 \<le> length (trim (snd (pdfNative (world0 3) (buffer ?f))))"
    unfolding 2 by (simp add: trim_def isSpace_def)
  have 4: "length (trim (snd (pdfNative (world0 3) (buffer ?g)))) < 20"
    by (simp add: service_defs world_defs trim_def isSpace_def)
  from pdf_fallback [OF 1(1)] 3
  have "dispatch (world0 3) ?f = (fst (pdfNative (world0 3) (buffer ?f)), Inr (snd (pdfNative (world0 3) (buffer ?f))))"
    by blast
  moreover from pdf_fallback [OF 1(2)] 4
  have "Require (js ''pdf2pic'') \<in> set (fst (dispatch (world0 3) ?g))"
    by blast
  ultimately show ?thesis unfolding 2 by simp
qed

section \<open>The order of the pages\<close>










text \<open>
  A rasterizer that yields no page contributes nothing: the PDF branch keeps the native
  text, whatever its length.
\<close>

lemma pdfText_no_pages:
  "requirePdf2pic w = Inr bulk \<Longrightarrow> bulk b = Inr (Some []) \<Longrightarrow>
     snd (pdfText w b) = snd (pdfNative w b)"
  by (cases "pdfNative w b") (simp add: pdfText_def ocrPdfBuffer_def)



section \<open>The dispatch on the MIME type\<close>

lemma wordText_calls:
  "set (fst (wordText w b)) \<subseteq> {Require (js ''mammoth''), MammothExtractRawText b}"
  by (auto simp: wordText_def split: sum.splits)

lemma wordText_fails:
  "(\<exists>e. requireMammoth w = Inl e) \<or> (\<exists>g e. requireMammoth w = Inr g \<and> g b = Inl e) \<Longrightarrow>
     snd (wordText w b) = Inl MalformedDocument"
  by (auto simp: wordText_def)

lemma extractText_calls: "fst (extractText w f) = fst (dispatch w f)"
  by (cases "dispatch w f") (auto simp: extractText_def split: sum.splits)

lemma extractText_throws: "snd (dispatch w f) = Inl e \<Longrightarrow> snd (extractText w f) = Inl e"
  by (cases "dispatch w f") (auto simp: extractText_def)

text \<open>
  C9, amended. A MIME type whose lower-case form contains none of \<open>pdf\<close>, \<open>word\<close> and
  \<open>officedocument\<close> and does not start with \<open>image/\<close> is rejected with the
  unsupported-format exception before any call is made. A type without \<open>pdf\<close> that contains
  \<open>word\<close> or \<open>officedocument\<close> goes to the Word extractor, whatever else it names: the only
  calls are those of \<open>mammoth\<close>, and when \<open>mammoth\<close> cannot be loaded or throws, the
  malformed-document exception is thrown, with no OCR.
\<close>

theorem dispatch_formats:
  "(\<not> includesStr (js ''pdf'') (toLowerCase w (mimetype f))
      \<and> \<not> includesStr (js ''word'') (toLowerCase w (mimetype f))
      \<and> \<not> includesStr (js ''officedocument'') (toLowerCase w (mimetype f))
      \<and> \<not> startsWith (js ''image/'') (toLowerCase w (mimetype f))
     \<longrightarrow> extractText w f = ([], Inl UnsupportedFormat))
   \<and> (\<not> includesStr (js ''pdf'') (toLowerCase w (mimetype f))
      \<and> (includesStr (js ''word'') (toLowerCase w (mimetype f))
           \<or> includesStr (js ''officedocument'') (toLowerCase w (mimetype f)))
     \<longrightarrow> set (fst (extractText w f)) \<subseteq> {Require (js ''mammoth''), MammothExtractRawText (buffer f)}
         \<and> ((\<exists>e. requireMammoth w = Inl e)
              \<or> (\<exists>g e. requireMammoth w = Inr g \<and> g (buffer f) = Inl e)
             \<longrightarrow> snd (extractText w f) = Inl MalformedDocument))"
proof (intro conjI impI)
  assume "\<not> includesStr (js ''pdf'') (toLowerCase w (mimetype f))
      \<and> \<not> includesStr (js ''word'') (toLowerCase w (mimetype f))
      \<and> \<not> includesStr (js ''officedocument'') (toLowerCase w (mimetype f))
      \<and> \<not> startsWith (js ''image/'') (toLowerCase w (mimetype f))"
  then show "extractText w f = ([], Inl UnsupportedFormat)"
    by (simp add: extractText_def dispatch_def)
next
  assume a: "\<not> includesStr (js ''pdf'') (toLowerCase w (mimetype f))
      \<and> (includesStr (js ''word'') (toLowerCase w (mimetype f))
           \<or> includesStr (js ''officedocument'') (toLowerCase w (mimetype f)))"
  then have d: "dispatch w f = wordText w (buffer f)"
    by (auto simp: dispatch_def)
  show "set (fst (extractText w f)) \<subseteq> {Require (js ''mammoth''), MammothExtractRawText (buffer f)}"
    unfolding extractText_calls d by (rule wordText_calls)
  assume "(\<exists>e. requireMammoth w = Inl e)
              \<or> (\<exists>g e. requireMammoth w = Inr g \<and> g (buffer f) = Inl e)"
  then have "snd (wordText w (buffer f)) = Inl MalformedDocument"
    by (rule wordText_fails)
  then show "snd (extractText w f) = Inl MalformedDocument"
    using extractText_throws [of w f MalformedDocument] d by simp
qed

theorem dispatch_formats_witness:
  "extractText (world0 0)
      \<lparr>mimetype = js ''text/plain'', originalname = js ''cv.txt'', buffer = Buffer (js ''Jane Doe'')\<rparr>
     = ([], Inl UnsupportedFormat)
   \<and> snd (extractText brokenMammoth
      \<lparr>mimetype = js ''application/vnd.openxmlformats-officedocument.wordprocessingml.document'',
       originalname = js ''cv.docx'', buffer = Buffer (js ''Jane Doe'')\<rparr>)
     = Inl MalformedDocument"
proof -
  let ?f = "\<lparr>mimetype = js ''text/plain'', originalname = js ''cv.txt'', buffer = Buffer (js ''Jane Doe'')\<rparr>"
  let ?g = "\<lparr>mimetype = js ''application/vnd.openxmlformats-officedocument.wordprocessingml.document'',
       originalname = js ''cv.docx'', buffer = Buffer (js ''Jane Doe'')\<rparr>"
  have 1: "\<not> includesStr (js ''pdf'') (toLowerCase (world0 0) (mimetype ?f))
      \<and> \<not> includesStr (js ''word'') (toLowerCase (world0 0) (mimetype ?f))
      \<and> \<not> includesStr (js ''officedocument'') (toLowerCase (world0 0) (mimetype ?f))
      \<and> \<not> startsWith (js ''image/'') (toLowerCase (world0 0) (mimetype ?f))"
    by (simp add: world_defs startsWith_def)
  have 2: "\<not> includesStr (js ''pdf'') (toLowerCase brokenMammoth (mimetype ?g))
      \<and> (includesStr (js ''word'') (toLowerCase brokenMammoth (mimetype ?g))
           \<or> includesStr (js ''officedocument'') (toLowerCase brokenMammoth (mimetype ?g)))"
    by (simp add: brokenMammoth_def world_defs startsWith_def)
  have 3: "(\<exists>e. requireMammoth brokenMammoth = Inl e)
      \<or> (\<exists>g e. requireMammoth brokenMammoth = Inr g \<and> g (buffer ?g) = Inl e)"
    by (simp add: brokenMammoth_def)
  from dispatch_formats [of "world0 0" ?f] 1
  have "extractText (world0 0) ?f = ([], Inl UnsupportedFormat)"
    by blast
  moreover from dispatch_formats [of brokenMammoth ?g] 2 3
  have "snd (extractText brokenMammoth ?g) = Inl MalformedDocument"
    by blast
  ultimately show ?thesis by simp
qed

text \<open>
  C9 as stated rejects every type that is neither PDF nor a Word document nor an image.
  The type of a spreadsheet contains \<open>officedocument\<close>: it is not rejected but given to
  the Word extractor.
\<close>

theorem dispatch_formats_counterexample:
  "extractText (world0 0)
      \<lparr>mimetype = js ''application/vnd.openxmlformats-officedocument.spreadsheetml.sheet'',
       originalname = js ''book.xlsx'', buffer = Buffer (js ''a,b'')\<rparr>
     = ([Require (js ''mammoth''), MammothExtractRawText (Buffer (js ''a,b''))], Inr (js ''a,b''))
   \<and> extractText brokenMammoth
      \<lparr>mimetype = js ''application/vnd.openxmlformats-officedocument.spreadsheetml.sheet'',
       originalname = js ''book.xlsx'', buffer = Buffer (js ''a,b'')\<rparr>
     = ([Require (js ''mammoth''), MammothExtractRawText (Buffer (js ''a,b''))], Inl MalformedDocument)
   \<and> MalformedDocument \<noteq> UnsupportedFormat"
  by (simp add: service_defs brokenMammoth_def world_defs startsWith_def trim_def isSpace_def)

section \<open>The import endpoint\<close>

lemma importFromFile_throws:
  "extractText w f = (cs, Inl e) \<Longrightarrow> importFromFile w uid f = Some (cs, Inl e)"
  by (simp add: importFromFile_def)

lemma importFromFile_created:
  "importFromFile w uid f = Some (cs, Inr row) \<Longrightarrow>
     \<exists>cs0 t ttl sl. extractText w f = (cs0, Inr t)
        \<and> create w \<lparr>userId = uid, visibility = js ''private'', headline = summaryOf t,
              resumeTitle = ttl, slug = sl\<rparr> = Inr row
        \<and> ResumeCreate \<lparr>userId = uid, visibility = js ''private'', headline = summaryOf t,
              resumeTitle = ttl, slug = sl\<rparr> \<in> set cs"
  by (cases "extractText w f")
    (auto simp: importFromFile_def Let_def split: sum.splits option.splits prod.splits, blast)

lemma importFile_image:
  "startsWith (js ''image/'') (toLowerCase w (mimetype f)) \<Longrightarrow>
     \<exists>cs t. recognizeImageBuffer w (buffer f) = (cs, Inr t)
        \<and> importFile w uid (Some f) = Some (cs, Inr (TextAndParsed t (parse (toLowerCase w) t)))"
  using recognizeImageBuffer_cases [of w "buffer f"] by (auto simp: importFile_def)

lemma importFile_other:
  "\<not> startsWith (js ''image/'') (toLowerCase w (mimetype f)) \<Longrightarrow>
     importFile w uid (Some f) =
       (case importFromFile w uid f of
          None \<Rightarrow> None
        | Some (cs, Inl error) \<Rightarrow> Some (cs, Inl (InternalServerErrorException error))
        | Some (cs, Inr resume) \<Rightarrow> Some (cs, Inr (Created resume)))"
  by (simp add: importFile_def)

lemma importFromFile_free:
  "extractText w f = (cs0, Inr t) \<Longrightarrow>
   findFirst w uid (slugify w (replaceFirst rxExtension (originalname f) [])) = Inr False \<Longrightarrow>
   importFromFile w uid f =
     Some (cs0 @ [ResumeFindFirst uid (slugify w (replaceFirst rxExtension (originalname f) [])),
                  ResumeCreate \<lparr>userId = uid, visibility = js ''private'', headline = summaryOf t,
                    resumeTitle = replaceFirst rxExtension (originalname f) [],
                    slug = slugify w (replaceFirst rxExtension (originalname f) [])\<rparr>],
           create w \<lparr>userId = uid, visibility = js ''private'', headline = summaryOf t,
                    resumeTitle = replaceFirst rxExtension (originalname f) [],
                    slug = slugify w (replaceFirst rxExtension (originalname f) [])\<rparr>)"
  by (subst importFromFile_def, subst uniqueSlug.simps) (simp add: Let_def split: sum.splits)

text \<open>
  C1, amended. For an upload whose lower-case MIME type starts with \<open>image/\<close> the OCR text
  is given to the parser and the result is that text with the \<open>ParsedResume\<close> built from
  it. For every other upload the parser is not involved: a successful result is the row
  returned by \<open>prisma.resume.create\<close>, called with the first block of the extracted text
  as headline; and the endpoint does return that row when the extraction succeeds, the
  slug of the file name is free and the row is created.
\<close>

theorem importFile_result:
  "(startsWith (js ''image/'') (toLowerCase w (mimetype f)) \<longrightarrow>
      (\<exists>cs t. recognizeImageBuffer w (buffer f) = (cs, Inr t)
         \<and> importFile w uid (Some f) = Some (cs, Inr (TextAndParsed t (parse (toLowerCase w) t)))))
   \<and> (\<not> startsWith (js ''image/'') (toLowerCase w (mimetype f)) \<longrightarrow>
        (\<forall>cs r. importFile w uid (Some f) = Some (cs, Inr r) \<longrightarrow>
           (\<exists>cs0 t ttl sl row. extractText w f = (cs0, Inr t)
              \<and> create w \<lparr>userId = uid, visibility = js ''private'', headline = summaryOf t,
                    resumeTitle = ttl, slug = sl\<rparr> = Inr row
              \<and> ResumeCreate \<lparr>userId = uid, visibility = js ''private'', headline = summaryOf t,
                    resumeTitle = ttl, slug = sl\<rparr> \<in> set cs
              \<and> r = Created row)))
   \<and> (\<not> startsWith (js ''image/'') (toLowerCase w (mimetype f)) \<longrightarrow>
        (\<forall>cs0 t row. extractText w f = (cs0, Inr t) \<longrightarrow>
           findFirst w uid (slugify w (replaceFirst rxExtension (originalname f) [])) = Inr False \<longrightarrow>
           create w \<lparr>userId = uid, visibility = js ''private'', headline = summaryOf t,
                    resumeTitle = replaceFirst rxExtension (originalname f) [],
                    slug = slugify w (replaceFirst rxExtension (originalname f) [])\<rparr> = Inr row \<longrightarrow>
           (\<exists>cs. importFile w uid (Some f) = Some (cs, Inr (Created row)))))"
proof (intro conjI impI allI)
  assume "startsWith (js ''image/'') (toLowerCase w (mimetype f))"
  then show "\<exists>cs t. recognizeImageBuffer w (buffer f) = (cs, Inr t)
         \<and> importFile w uid (Some f) = Some (cs, Inr (TextAndParsed t (parse (toLowerCase w) t)))"
    by (rule importFile_image)
next
  fix cs r
  assume n: "\<not> startsWith (js ''image/'') (toLowerCase w (mimetype f))"
    and i: "importFile w uid (Some f) = Some (cs, Inr r)"
  from i obtain row where "importFromFile w uid f = Some (cs, Inr row)" "r = Created row"
    unfolding importFile_other [OF n]
    by (auto split: option.splits sum.splits prod.splits)
  with importFromFile_created [of w uid f cs row]
  show "\<exists>cs0 t ttl sl row. extractText w f = (cs0, Inr t)
              \<and> create w \<lparr>userId = uid, visibility = js ''private'', headline = summaryOf t,
                    resumeTitle = ttl, slug = sl\<rparr> = Inr row
              \<and> ResumeCreate \<lparr>userId = uid, visibility = js ''private'', headline = summaryOf t,
                    resumeTitle = ttl, slug = sl\<rparr> \<in> set cs
              \<and> r = Created row"
    by blast
next
  fix cs0 t row
  assume n: "\<not> startsWith (js ''image/'') (toLowerCase w (mimetype f))"
    and e: "extractText w f = (cs0, Inr t)"
    and fr: "findFirst w uid (slugify w (replaceFirst rxExtension (originalname f) [])) = Inr False"
    and c: "create w \<lparr>userId = uid, visibility = js ''private'', headline = summaryOf t,
                    resumeTitle = replaceFirst rxExtension (originalname f) [],
                    slug = slugify w (replaceFirst rxExtension (originalname f) [])\<rparr> = Inr row"
  show "\<exists>cs. importFile w uid (Some f) = Some (cs, Inr (Created row))"
    unfolding importFile_other [OF n] importFromFile_free [OF e fr] c by simp
qed

theorem importFile_result_witness:
  "importFile (world0 0) (js ''u1'')
      (Some \<lparr>mimetype = js ''image/png'', originalname = js ''cv.png'',
             buffer = Buffer (js ''John Smith'')\<rparr>)
     = Some ([Require (js ''tesseract.js''), TesseractRecognize (Buffer (js ''John Smith''))],
             Inr (TextAndParsed (js ''John Smith'') (parse asciiLower (js ''John Smith''))))"
proof -
  let ?f = "\<lparr>mimetype = js ''image/png'', originalname = js ''cv.png'',
             buffer = Buffer (js ''John Smith'')\<rparr>"
  have 1: "startsWith (js ''image/'') (toLowerCase (world0 0) (mimetype ?f))"
    by (simp add: world_defs startsWith_def)
  have 2: "recognizeImageBuffer (world0 0) (buffer ?f) =
      ([Require (js ''tesseract.js''), TesseractRecognize (Buffer (js ''John Smith''))],
       Inr (js ''John Smith''))"
    by (simp add: recognizeImageBuffer_def world_defs)
  have 3: "toLowerCase (world0 0) = asciiLower"
    by (simp add: world0_def)
  from importFile_result [of "world0 0" ?f "js ''u1''"] 1
  obtain cs t where r: "recognizeImageBuffer (world0 0) (buffer ?f) = (cs, Inr t)"
    and i: "importFile (world0 0) (js ''u1'') (Some ?f) =
      Some (cs, Inr (TextAndParsed t (parse (toLowerCase (world0 0)) t)))"
    by blast
  from r have ct: "cs = [Require (js ''tesseract.js''), TesseractRecognize (Buffer (js ''John Smith''))]"
    "t = js ''John Smith''"
    unfolding 2 by auto
  from i show ?thesis
    unfolding ct 3 .
qed

lemma baseTitle_example: "replaceFirst rxExtension (js ''cv.pdf'') [] = js ''cv''"
  by (simp add: replaceFirst_def rxExtension_def one_def isChar_def below_def)

lemma summaryOf_example: "summaryOf (js ''John Smith\<newline>Software Engineer'') = js ''John Smith\<newline>Software Engineer''"
  by (simp add: summaryOf_def rxBlankLines_def splitRx_def trim_def isSpace_def below_def)

lemma uniqueSlug_free: "uniqueSlug (world0 0) u b (t, sl, n) cs = Some (cs @ [ResumeFindFirst u sl], t, sl)"
  by (subst uniqueSlug.simps) (simp add: world0_def)

lemma extractText_example: "extractText (world0 0) \<lparr>mimetype = js ''application/pdf'', originalname = js ''cv.pdf'',
             buffer = Buffer (js ''John Smith\<newline>Software Engineer'')\<rparr>
   = ([Require (js ''pdf-parse''), PdfParse (Buffer (js ''John Smith\<newline>Software Engineer''))], Inr (js ''John Smith\<newline>Software Engineer''))"
  by (simp add: service_defs world_defs startsWith_def trim_def isSpace_def)

text \<open>
  C1 as stated has the result of a PDF upload contain the \<open>ParsedResume\<close> of its text; the
  result is the created row.
\<close>

theorem importFile_result_counterexample:
  "importFile (world0 0) (js ''u1'')
      (Some \<lparr>mimetype = js ''application/pdf'', originalname = js ''cv.pdf'',
             buffer = Buffer (js ''John Smith\<newline>Software Engineer'')\<rparr>)
     = Some ([Require (js ''pdf-parse''), PdfParse (Buffer (js ''John Smith\<newline>Software Engineer'')),
              ResumeFindFirst (js ''u1'') (js ''cv''),
              ResumeCreate \<lparr>userId = js ''u1'', visibility = js ''private'',
                headline = js ''John Smith\<newline>Software Engineer'', resumeTitle = js ''cv'',
                slug = js ''cv''\<rparr>],
             Inr (Created (Resume (js ''id1'')
               \<lparr>userId = js ''u1'', visibility = js ''private'',
                headline = js ''John Smith\<newline>Software Engineer'', resumeTitle = js ''cv'',
                slug = js ''cv''\<rparr>)))"
proof -
  let ?f = "\<lparr>mimetype = js ''application/pdf'', originalname = js ''cv.pdf'',
             buffer = Buffer (js ''John Smith\<newline>Software Engineer'')\<rparr>"
  have n: "\<not> startsWith (js ''image/'') (toLowerCase (world0 0) (mimetype ?f))"
    by (simp add: world_defs startsWith_def)
  have w: "slugify (world0 0) = (\<lambda>s. s)" "create (world0 0) = (\<lambda>input. Inr (Resume (js ''id1'') input))"
    by (simp_all add: world0_def)
  have "importFromFile (world0 0) (js ''u1'') ?f =
      Some ([Require (js ''pdf-parse''), PdfParse (Buffer (js ''John Smith\<newline>Software Engineer'')),
              ResumeFindFirst (js ''u1'') (js ''cv''),
              ResumeCreate \<lparr>userId = js ''u1'', visibility = js ''private'',
                headline = js ''John Smith\<newline>Software Engineer'', resumeTitle = js ''cv'',
                slug = js ''cv''\<rparr>],
             Inr (Resume (js ''id1'')
               \<lparr>userId = js ''u1'', visibility = js ''private'',
                headline = js ''John Smith\<newline>Software Engineer'', resumeTitle = js ''cv'',
                slug = js ''cv''\<rparr>))"
    by (simp add: importFromFile_def Let_def extractText_example [simplified] baseTitle_example [simplified] summaryOf_example [simplified] uniqueSlug_free w)
  then show ?thesis
    unfolding importFile_other [OF n] by simp
qed

text \<open>
  C10. Whatever is thrown while the endpoint handles the upload reaches its caller inside
  an internal-server-error exception: the missing file, and for an upload that is not an
  image every exception of the extraction (unsupported format, malformed document, no
  extractable text). No bad-request exception leaves the endpoint as such.
\<close>

theorem importFile_errors:
  "importFile w uid None = Some ([], Inl (InternalServerErrorException NoFileProvided))
   \<and> (\<forall>f cs e. \<not> startsWith (js ''image/'') (toLowerCase w (mimetype f)) \<longrightarrow>
         extractText w f = (cs, Inl e) \<longrightarrow>
         importFile w uid (Some f) = Some (cs, Inl (InternalServerErrorException e)))
   \<and> (\<forall>upload cs e. importFile w uid upload = Some (cs, Inl e) \<longrightarrow>
         (\<exists>e'. e = InternalServerErrorException e'))"
proof (intro conjI impI allI)
  show "importFile w uid None = Some ([], Inl (InternalServerErrorException NoFileProvided))"
    by (simp add: importFile_def)
next
  fix f cs e
  assume "\<not> startsWith (js ''image/'') (toLowerCase w (mimetype f))"
    and "extractText w f = (cs, Inl e)"
  then show "importFile w uid (Some f) = Some (cs, Inl (InternalServerErrorException e))"
    by (simp add: importFile_other importFromFile_throws)
next
  fix upload cs e
  assume "importFile w uid upload = Some (cs, Inl e)"
  then show "\<exists>e'. e = InternalServerErrorException e'"
    by (auto simp: importFile_def split: option.splits sum.splits prod.splits if_splits)
qed

theorem importFile_errors_witness:
  "importFile (world0 0) (js ''u1'') None
     = Some ([], Inl (InternalServerErrorException NoFileProvided))
   \<and> importFile (world0 0) (js ''u1'')
      (Some \<lparr>mimetype = js ''text/plain'', originalname = js ''cv.txt'', buffer = Buffer (js ''Jane Doe'')\<rparr>)
     = Some ([], Inl (InternalServerErrorException UnsupportedFormat))
   \<and> importFile brokenMammoth (js ''u1'')
      (Some \<lparr>mimetype = js ''application/msword'', originalname = js ''cv.doc'', buffer = Buffer (js ''Jane Doe'')\<rparr>)
     = Some ([Require (js ''mammoth''), MammothExtractRawText (Buffer (js ''Jane Doe''))],
             Inl (InternalServerErrorException MalformedDocument))
   \<and> importFile (world0 0) (js ''u1'')
      (Some \<lparr>mimetype = js ''application/pdf'', originalname = js ''scan.pdf'', buffer = Buffer (js ''  '')\<rparr>)
     = Some ([Require (js ''pdf-parse''), PdfParse (Buffer (js ''  '')), Require (js ''pdf2pic''),
              Pdf2picBulk (Buffer (js ''  ''))],
             Inl (InternalServerErrorException NoExtractableText))"
proof -
  let ?a = "\<lparr>mimetype = js ''text/plain'', originalname = js ''cv.txt'', buffer = Buffer (js ''Jane Doe'')\<rparr>"
  let ?b = "\<lparr>mimetype = js ''application/msword'', originalname = js ''cv.doc'', buffer = Buffer (js ''Jane Doe'')\<rparr>"
  let ?c = "\<lparr>mimetype = js ''application/pdf'', originalname = js ''scan.pdf'', buffer = Buffer (js ''  '')\<rparr>"
  have n: "\<not> startsWith (js ''image/'') (toLowerCase (world0 0) (mimetype ?a))"
    "\<not> startsWith (js ''image/'') (toLowerCase brokenMammoth (mimetype ?b))"
    "\<not> startsWith (js ''image/'') (toLowerCase (world0 0) (mimetype ?c))"
    by (simp_all add: brokenMammoth_def world_defs startsWith_def)
  have e: "extractText (world0 0) ?a = ([], Inl UnsupportedFormat)"
    "extractText brokenMammoth ?b =
      ([Require (js ''mammoth''), MammothExtractRawText (Buffer (js ''Jane Doe''))], Inl MalformedDocument)"
    "extractText (world0 0) ?c =
      ([Require (js ''pdf-parse''), PdfParse (Buffer (js ''  '')), Require (js ''pdf2pic''),
        Pdf2picBulk (Buffer (js ''  ''))], Inl NoExtractableText)"
    by (simp_all add: service_defs brokenMammoth_def world_defs startsWith_def trim_def isSpace_def)
  from importFile_errors [of "world0 0" "js ''u1''"] importFile_errors [of brokenMammoth "js ''u1''"] n e
  show ?thesis by blast
qed

end
